theory Spec2Isabelle
  imports Complex_Main
begin

section \<open>Time values\<close>

text \<open>
  \<^verbatim>\<open>src/refiners/training_utils/config.py\<close> imports \<^verbatim>\<open>Epoch, Iteration, Step, TimeValue,
  TimeValueInput, parse_number_unit_field\<close> from \<^verbatim>\<open>refiners.training_utils.common\<close>, a module
  of the repository that is not among the sources. What the configuration module itself shows
  of them: the three classes are built from one integer (\<^verbatim>\<open>Iteration(1)\<close>, \<^verbatim>\<open>Step(1)\<close>,
  \<^verbatim>\<open>Iteration(0)\<close>), they are usable wherever a \<^verbatim>\<open>TimeValue\<close> is expected, and the comment on
  line 25 reads \<^verbatim>\<open>Iteration(1)\<close> as \<^verbatim>\<open>TimeValue(number=1, unit=TimeUnit.ITERATION)\<close>.
\<close>

datatype TimeUnit = ITERATION | STEP | EPOCH

text \<open>
  Modelled from the spec: the classes \<^verbatim>\<open>TimeValue\<close>, \<^verbatim>\<open>Iteration\<close>, \<^verbatim>\<open>Step\<close> and \<^verbatim>\<open>Epoch\<close> of the
  missing module \<^verbatim>\<open>refiners.training_utils.common\<close>. The spec gives a time value as a pair of a
  magnitude and a unit of the closed set Iteration, Step, Epoch; the configuration module uses
  one class per unit, so the model has one constructor per class.
\<close>

datatype TimeValue = Iteration int | Step int | Epoch int

fun number :: "TimeValue \<Rightarrow> int" where
  "number (Iteration n) = n"
| "number (Step n) = n"
| "number (Epoch n) = n"

fun unit :: "TimeValue \<Rightarrow> TimeUnit" where
  "unit (Iteration n) = ITERATION"
| "unit (Step n) = STEP"
| "unit (Epoch n) = EPOCH"

datatype error = InvalidTimeValue | UnknownDatasetLength | UnresolvableComparison | ValidationError

section \<open>Parsing of configuration input\<close>

text \<open>
  Modelled from the spec: the type \<^verbatim>\<open>TimeValueInput\<close> of the missing module
  \<^verbatim>\<open>refiners.training_utils.common\<close>. The spec lists three input shapes: a bare integer, a
  structured value with a number and a unit token, and a string.
\<close>

datatype TimeValueInput = IntInput int | RecordInput int string | StrInput string

text \<open>
  Modelled from the spec: the unit vocabulary of the missing function
  \<^verbatim>\<open>parse_number_unit_field\<close>. The spec asks for the spellings of iteration, step and epoch,
  without regard to case, in the singular or the plural.
\<close>

definition lower_char :: "char \<Rightarrow> char" where
  "lower_char c =
     (let k = (of_char c :: nat) in if 65 \<le> k \<and> k \<le> 90 then char_of (k + 32) else c)"

definition parse_unit :: "string \<Rightarrow> TimeUnit option" where
  "parse_unit token =
     (let t = map lower_char token in
      if t = ''iteration'' \<or> t = ''iterations'' then Some ITERATION
      else if t = ''step'' \<or> t = ''steps'' then Some STEP
      else if t = ''epoch'' \<or> t = ''epochs'' then Some EPOCH
      else None)"

fun time_value :: "int \<Rightarrow> TimeUnit \<Rightarrow> TimeValue" where
  "time_value n ITERATION = Iteration n"
| "time_value n STEP = Step n"
| "time_value n EPOCH = Epoch n"

text \<open>
  Modelled from the spec: the function \<^verbatim>\<open>parse_number_unit_field\<close> of the missing module
  \<^verbatim>\<open>refiners.training_utils.common\<close>. The configuration module calls it with the raw value
  alone (lines 37 and 85), so it has one behaviour for every field. A bare integer takes the unit
  the spec gives for the duration field, Iteration. The spec does not fix how a string is cut
  into its number and its unit suffix: the cut is the parameter \<open>split\<close>, which returns nothing
  for a string that has not that form.
\<close>

definition parse_number_unit_field ::
  "(string \<Rightarrow> (int \<times> string) option) \<Rightarrow> TimeValueInput \<Rightarrow> error + TimeValue" where
  "parse_number_unit_field split value =
     (case value of
        IntInput n \<Rightarrow> if n < 0 then Inl InvalidTimeValue else Inr (Iteration n)
      | RecordInput n token \<Rightarrow>
          (if n < 0 then Inl InvalidTimeValue
           else case parse_unit token of
                  None \<Rightarrow> Inl InvalidTimeValue
                | Some u \<Rightarrow> Inr (time_value n u))
      | StrInput s \<Rightarrow>
          (case split s of
             None \<Rightarrow> Inl InvalidTimeValue
           | Some (n, token) \<Rightarrow>
               (if n < 0 then Inl InvalidTimeValue
                else case parse_unit token of
                       None \<Rightarrow> Inl InvalidTimeValue
                     | Some u \<Rightarrow> Inr (time_value n u))))"

section \<open>TrainingConfig\<close>

text \<open>
  A field annotation names the classes a value may be an instance of: \<^verbatim>\<open>TimeValue\<close> admits the
  three classes, \<^verbatim>\<open>Step | Epoch\<close> and \<^verbatim>\<open>Iteration | Epoch\<close> two of them. The annotations are
  those of lines 25, 28 and 29 of the configuration module.
\<close>

definition duration_annotation :: "TimeUnit list" where
  "duration_annotation = [ITERATION, STEP, EPOCH]"

definition gradient_accumulation_annotation :: "TimeUnit list" where
  "gradient_accumulation_annotation = [STEP, EPOCH]"

definition evaluation_interval_annotation :: "TimeUnit list" where
  "evaluation_interval_annotation = [ITERATION, EPOCH]"

text \<open>
  The validation of a value against its annotation, done by pydantic once the field validator
  has returned: the value passes when it is an instance of one of the classes.
\<close>

definition check_annotation :: "TimeUnit list \<Rightarrow> TimeValue \<Rightarrow> error + TimeValue" where
  "check_annotation allowed v = (if unit v \<in> set allowed then Inr v else Inl ValidationError)"

text \<open>
  \<^verbatim>\<open>TrainingConfig.parse_field\<close> (lines 35 to 37) runs before the validation of the annotation
  (\<^verbatim>\<open>mode="before"\<close>) on the three fields, and only on a value that was given: an omitted field
  takes its default as it stands.
\<close>

definition parse_field ::
  "(string \<Rightarrow> (int \<times> string) option) \<Rightarrow> TimeValueInput \<Rightarrow> error + TimeValue" where
  "parse_field split value = parse_number_unit_field split value"

definition validate_time_field ::
  "(string \<Rightarrow> (int \<times> string) option) \<Rightarrow> TimeUnit list \<Rightarrow> TimeValue \<Rightarrow>
   TimeValueInput option \<Rightarrow> error + TimeValue" where
  "validate_time_field split allowed dflt given =
     (case given of
        None \<Rightarrow> Inr dflt
      | Some value \<Rightarrow>
          (case parse_field split value of
             Inl e \<Rightarrow> Inl e
           | Inr v \<Rightarrow> check_annotation allowed v))"

definition duration_field ::
  "(string \<Rightarrow> (int \<times> string) option) \<Rightarrow> TimeValueInput option \<Rightarrow> error + TimeValue" where
  "duration_field split given = validate_time_field split duration_annotation (Iteration 1) given"

definition gradient_accumulation_field ::
  "(string \<Rightarrow> (int \<times> string) option) \<Rightarrow> TimeValueInput option \<Rightarrow> error + TimeValue" where
  "gradient_accumulation_field split given =
     validate_time_field split gradient_accumulation_annotation (Step 1) given"

definition evaluation_interval_field ::
  "(string \<Rightarrow> (int \<times> string) option) \<Rightarrow> TimeValueInput option \<Rightarrow> error + TimeValue" where
  "evaluation_interval_field split given =
     validate_time_field split evaluation_interval_annotation (Iteration 1) given"

section \<open>Enumerations\<close>


text \<open>
  \<^verbatim>\<open>class LRSchedulerType(str, Enum)\<close> (lines 49 to 61), as the class body has it: the names
  with their values, in the order of the source. Python's \<^verbatim>\<open>Enum\<close> makes a member of the first
  name that carries a value; a later name with the same value is an alias, and looking it up
  gives the member defined first.
\<close>

definition LRSchedulerType_body :: "(string \<times> string) list" where
  "LRSchedulerType_body =
     [(''STEP_LR'', ''StepLR''),
      (''EXPONENTIAL_LR'', ''ExponentialLR''),
      (''REDUCE_LR_ON_PLATEAU'', ''ReduceLROnPlateau''),
      (''COSINE_ANNEALING_LR'', ''CosineAnnealingLR''),
      (''CONSTANT_LR'', ''ConstantLR''),
      (''LAMBDA_LR'', ''LambdaLR''),
      (''ONE_CYCLE_LR'', ''OneCycleLR''),
      (''MULTIPLICATIVE_LR'', ''MultiplicativeLR''),
      (''COSINE_ANNEALING_WARM_RESTARTS'', ''CosineAnnealingWarmRestarts''),
      (''CYCLIC_LR'', ''CyclicLR''),
      (''MULTI_STEP_LR'', ''MultiStepLR''),
      (''DEFAULT'', ''ConstantLR'')]"

record enum_member =
  name :: string
  val :: string

fun enum_first :: "(string \<times> string) list \<Rightarrow> string \<Rightarrow> enum_member option" where
  "enum_first [] v = None"
| "enum_first ((n, w) # body) v =
     (if w = v then Some \<lparr>name = n, val = w\<rparr> else enum_first body v)"

definition enum_lookup :: "(string \<times> string) list \<Rightarrow> string \<Rightarrow> enum_member option" where
  "enum_lookup body n = (case map_of body n of None \<Rightarrow> None | Some v \<Rightarrow> enum_first body v)"

text \<open>The members of an enumeration: the names that are not aliases, in the order of the body.\<close>

definition enum_members :: "(string \<times> string) list \<Rightarrow> enum_member list" where
  "enum_members body =
     map (\<lambda>(n, v). \<lparr>name = n, val = v\<rparr>)
       (filter (\<lambda>(n, v). enum_lookup body n = Some \<lparr>name = n, val = v\<rparr>) body)"

definition LRSchedulerType :: "string \<Rightarrow> enum_member" where
  "LRSchedulerType n = the (enum_lookup LRSchedulerType_body n)"

section \<open>LRSchedulerConfig\<close>

text \<open>
  \<^verbatim>\<open>class LRSchedulerConfig(BaseModel)\<close> (lines 64 to 79). Floating-point fields are real numbers
  here: no property below computes with them.
\<close>

record LRSchedulerConfig =
  type :: enum_member
  update_interval :: TimeValue
  warmup :: TimeValue
  gamma :: real
  lr_lambda :: "(int \<Rightarrow> real) option"
  mode :: string
  factor :: real
  patience :: int
  threshold :: real
  cooldown :: int
  milestones :: "int list"
  base_lr :: real
  min_lr :: "real + real list"
  max_lr :: "real + real list"
  eta_min :: real

definition LRSchedulerConfig_default :: LRSchedulerConfig where
  "LRSchedulerConfig_default =
     \<lparr>type = LRSchedulerType ''DEFAULT'',
      update_interval = Iteration 1,
      warmup = Iteration 0,
      gamma = 1 / 10,
      lr_lambda = None,
      mode = ''min'',
      factor = 1 / 10,
      patience = 10,
      threshold = 1 / 10000,
      cooldown = 0,
      milestones = [],
      base_lr = 1 / 10000000,
      min_lr = Inl 0,
      max_lr = Inl 0,
      eta_min = 0\<rparr>"

section \<open>OptimizerConfig\<close>







section \<open>Unknown keys\<close>

text \<open>
  Every model of the configuration module sets \<^verbatim>\<open>model_config = ConfigDict(extra="forbid")\<close>
  (lines 33, 81, 95, 150, 170 and 183). A model is described by the names of the fields it
  declares, those among them that have no default, and its setting for extra keys.
\<close>

datatype Extra = allow | ignore | forbid

record BaseModel =
  declared :: "string list"
  required :: "string list"
  extra :: Extra

definition TrainingConfig_model :: BaseModel where
  "TrainingConfig_model =
     \<lparr>declared = [''device'', ''dtype'', ''duration'', ''seed'', ''batch_size'',
                  ''gradient_accumulation'', ''evaluation_interval'',
                  ''gradient_clipping_max_norm'', ''evaluation_seed''],
      required = [],
      extra = forbid\<rparr>"

definition LRSchedulerConfig_model :: BaseModel where
  "LRSchedulerConfig_model =
     \<lparr>declared = [''type'', ''update_interval'', ''warmup'', ''gamma'', ''lr_lambda'', ''mode'',
                  ''factor'', ''patience'', ''threshold'', ''cooldown'', ''milestones'',
                  ''base_lr'', ''min_lr'', ''max_lr'', ''eta_min''],
      required = [],
      extra = forbid\<rparr>"

definition OptimizerConfig_model :: BaseModel where
  "OptimizerConfig_model =
     \<lparr>declared = [''optimizer'', ''learning_rate'', ''betas'', ''eps'', ''weight_decay''],
      required = [''optimizer''],
      extra = forbid\<rparr>"

definition DataloaderConfig_model :: BaseModel where
  "DataloaderConfig_model =
     \<lparr>declared = [''num_workers'', ''pin_memory'', ''prefetch_factor'', ''persistent_workers'',
                  ''drop_last'', ''shuffle''],
      required = [],
      extra = forbid\<rparr>"

definition ModelConfig_model :: BaseModel where
  "ModelConfig_model =
     \<lparr>declared = [''requires_grad'', ''learning_rate'', ''betas'', ''eps'', ''weight_decay''],
      required = [],
      extra = forbid\<rparr>"

definition BaseConfig_model :: BaseModel where
  "BaseConfig_model =
     \<lparr>declared = [''training'', ''optimizer'', ''lr_scheduler'', ''clock'', ''dataloader''],
      required = [''training'', ''optimizer'', ''lr_scheduler''],
      extra = forbid\<rparr>"

text \<open>
  The construction of a model from keyword arguments, as pydantic does it: every error is
  collected, and the construction raises a validation error when there is one. A key the model
  does not declare is an error under \<^verbatim>\<open>forbid\<close>, is dropped under \<^verbatim>\<open>ignore\<close> and is kept under
  \<^verbatim>\<open>allow\<close>. The validation of a declared field's value is the parameter \<open>valid\<close>.
\<close>

datatype field_error = missing string | invalid string | extra_forbidden string

definition field_errors ::
  "BaseModel \<Rightarrow> (string \<Rightarrow> 'v \<Rightarrow> bool) \<Rightarrow> (string \<times> 'v) list \<Rightarrow> field_error list" where
  "field_errors model valid kwargs =
     map missing (filter (\<lambda>f. f \<notin> set (map fst kwargs)) (required model))
     @ map (\<lambda>(k, v). invalid k)
         (filter (\<lambda>(k, v). k \<in> set (declared model) \<and> \<not> valid k v) kwargs)
     @ (if extra model = forbid
        then map (\<lambda>(k, v). extra_forbidden k)
               (filter (\<lambda>(k, v). k \<notin> set (declared model)) kwargs)
        else [])"

definition construct ::
  "BaseModel \<Rightarrow> (string \<Rightarrow> 'v \<Rightarrow> bool) \<Rightarrow> (string \<times> 'v) list \<Rightarrow>
   field_error list + (string \<times> 'v) list" where
  "construct model valid kwargs =
     (let errors = field_errors model valid kwargs in
      if errors \<noteq> [] then Inl errors
      else if extra model = allow then Inr kwargs
      else Inr (filter (\<lambda>(k, v). k \<in> set (declared model)) kwargs))"

section \<open>Resolver\<close>

text \<open>
  The resolver, the clock and the triggers live in \<^verbatim>\<open>refiners.training_utils.clock\<close> and
  \<^verbatim>\<open>refiners.training_utils.common\<close>; the configuration module imports from both, and neither
  is among the sources. Every definition from here to the end of the definitions follows the
  spec.
\<close>

text \<open>
  Modelled from the spec: the run context of the missing resolver, a positive batch size and a
  dataset length that may be unknown.
\<close>

record RunContext =
  batch_size :: int
  dataset_length :: "int option"

text \<open>
  Modelled from the spec: the missing function \<^verbatim>\<open>resolve\<close>. Iteration is the identity, Step
  returns the count unchanged, Epoch is the ceiling of magnitude times dataset length over batch
  size and fails when the dataset length is unknown. The ceiling is computed on integers, by
  the division that rounds down.
\<close>

definition ceil_div :: "int \<Rightarrow> int \<Rightarrow> int" where
  "ceil_div a b = (a + b - 1) div b"

definition resolve :: "TimeValue \<Rightarrow> RunContext \<Rightarrow> error + int" where
  "resolve value context =
     (case value of
        Iteration n \<Rightarrow> Inr n
      | Step n \<Rightarrow> Inr n
      | Epoch n \<Rightarrow>
          (case dataset_length context of
             None \<Rightarrow> Inl UnknownDatasetLength
           | Some l \<Rightarrow> Inr (ceil_div (n * l) (batch_size context))))"

section \<open>Clock\<close>

text \<open>
  Modelled from the spec: the state of the missing clock. The elapsed epochs are a rational,
  derived from the elapsed iterations.
\<close>

record ClockState =
  iterations_elapsed :: int
  steps_elapsed :: int
  epochs_elapsed :: rat

text \<open>
  Modelled from the spec: the missing clock, which knows the batch size and the dataset length
  from its construction on, and starts with nothing elapsed.
\<close>

record Clock =
  clock_batch_size :: int
  clock_dataset_length :: int
  state :: ClockState

definition run_start :: ClockState where
  "run_start = \<lparr>iterations_elapsed = 0, steps_elapsed = 0, epochs_elapsed = 0\<rparr>"

definition new_clock :: "int \<Rightarrow> int \<Rightarrow> Clock" where
  "new_clock b l = \<lparr>clock_batch_size = b, clock_dataset_length = l, state = run_start\<rparr>"

definition clock_context :: "Clock \<Rightarrow> RunContext" where
  "clock_context c =
     \<lparr>batch_size = clock_batch_size c, dataset_length = Some (clock_dataset_length c)\<rparr>"

definition iterations_per_epoch :: "Clock \<Rightarrow> int" where
  "iterations_per_epoch c = ceil_div (clock_dataset_length c) (clock_batch_size c)"

text \<open>
  Modelled from the spec: the missing operation \<^verbatim>\<open>advance\<close>, called once for each mini-batch.
  It always counts an iteration, counts a step only when the iteration completed one, and
  computes the elapsed epochs again.
\<close>

definition advance :: "bool \<Rightarrow> bool \<Rightarrow> Clock \<Rightarrow> Clock" where
  "advance processed_iteration completed_step c =
     (let i = iterations_elapsed (state c) + 1;
          s = (if completed_step then steps_elapsed (state c) + 1 else steps_elapsed (state c))
      in c\<lparr>state :=
             \<lparr>iterations_elapsed = i,
              steps_elapsed = s,
              epochs_elapsed = of_int i / of_int (iterations_per_epoch c)\<rparr>\<rparr>)"

text \<open>
  The training loop: one call of \<^verbatim>\<open>advance\<close> for each pair of flags, from left to right.
\<close>

fun advance_all :: "(bool \<times> bool) list \<Rightarrow> Clock \<Rightarrow> Clock" where
  "advance_all [] c = c"
| "advance_all ((p, s) # calls) c = advance_all calls (advance p s c)"

text \<open>
  Modelled from the spec: the missing query \<^verbatim>\<open>elapsed_since\<close>. The progress since the
  reference, in the unit of the interval, is compared with the magnitude; for an interval in
  epochs the elapsed iterations are compared with the resolved number of iterations.
\<close>

definition elapsed_since :: "Clock \<Rightarrow> ClockState \<Rightarrow> TimeValue \<Rightarrow> bool" where
  "elapsed_since c reference interval =
     (case interval of
        Iteration n \<Rightarrow> n \<le> iterations_elapsed (state c) - iterations_elapsed reference
      | Step n \<Rightarrow> n \<le> steps_elapsed (state c) - steps_elapsed reference
      | Epoch n \<Rightarrow>
          (case resolve interval (clock_context c) of
             Inl e \<Rightarrow> False
           | Inr iterations \<Rightarrow>
               iterations \<le> iterations_elapsed (state c) - iterations_elapsed reference))"

section \<open>Triggers\<close>

text \<open>
  Modelled from the spec: the missing schedule trigger, an interval and the state of the clock
  when the trigger fired last.
\<close>

record ScheduleTrigger =
  interval :: TimeValue
  last_fired_at :: "ClockState option"

definition should_fire :: "Clock \<Rightarrow> ScheduleTrigger \<Rightarrow> bool" where
  "should_fire c t =
     elapsed_since c (case last_fired_at t of None \<Rightarrow> run_start | Some s \<Rightarrow> s) (interval t)"

definition acknowledge :: "Clock \<Rightarrow> ScheduleTrigger \<Rightarrow> ScheduleTrigger" where
  "acknowledge c t = t\<lparr>last_fired_at := Some (state c)\<rparr>"

text \<open>
  Modelled from the spec: the warmup trigger of the missing module. It reports that the run is
  still warming up until the warmup value has elapsed since the start of the run; it is
  measured from the start of the run whatever the trigger recorded.
\<close>

definition warmup_should_fire :: "Clock \<Rightarrow> ScheduleTrigger \<Rightarrow> bool" where
  "warmup_should_fire c t = (\<not> elapsed_since c run_start (interval t))"

section \<open>Properties of the configuration fields\<close>

text \<open>
  C1, as the code has it. At the validation of a configuration, a parsed time value is accepted
  for \<^verbatim>\<open>gradient_accumulation\<close> exactly when its unit is Step or Epoch, and is refused with a
  validation error exactly when its unit is Iteration. For \<^verbatim>\<open>evaluation_interval\<close> it is
  accepted exactly when its unit is Iteration or Epoch, and refused exactly when its unit is
  Step: the annotation of that field is \<^verbatim>\<open>Iteration | Epoch\<close>.
\<close>

theorem time_field_units:
  assumes "parse_field split value = Inr v"
  shows "(gradient_accumulation_field split (Some value) = Inr v)
           = (unit v = STEP \<or> unit v = EPOCH)
         \<and> (gradient_accumulation_field split (Some value) = Inl ValidationError)
             = (unit v = ITERATION)
         \<and> (evaluation_interval_field split (Some value) = Inr v)
             = (unit v = ITERATION \<or> unit v = EPOCH)
         \<and> (evaluation_interval_field split (Some value) = Inl ValidationError)
             = (unit v = STEP)"
  using assms
  by (cases v)
    (simp_all add: gradient_accumulation_field_def evaluation_interval_field_def
      validate_time_field_def check_annotation_def gradient_accumulation_annotation_def
      evaluation_interval_annotation_def)

theorem time_field_units_witness:
  "parse_field (\<lambda>s. None) (RecordInput 2 ''Epochs'') = Inr (Epoch 2)
   \<and> gradient_accumulation_field (\<lambda>s. None) (Some (RecordInput 2 ''Epochs'')) = Inr (Epoch 2)
   \<and> evaluation_interval_field (\<lambda>s. None) (Some (RecordInput 2 ''Epochs'')) = Inr (Epoch 2)"
proof -
  have p: "parse_field (\<lambda>s. None) (RecordInput 2 ''Epochs'') = Inr (Epoch 2)"
    by code_simp
  show ?thesis
    using p time_field_units [OF p] by simp
qed

text \<open>
  C1 as the spec states it fails on \<^verbatim>\<open>evaluation_interval\<close>: a value of 5 iterations is
  accepted there, and a value of 5 steps is refused.
\<close>

theorem evaluation_interval_accepts_iteration:
  "parse_field (\<lambda>s. None) (RecordInput 5 ''iteration'') = Inr (Iteration 5)
   \<and> evaluation_interval_field (\<lambda>s. None) (Some (RecordInput 5 ''iteration''))
       = Inr (Iteration 5)
   \<and> parse_field (\<lambda>s. None) (RecordInput 5 ''step'') = Inr (Step 5)
   \<and> evaluation_interval_field (\<lambda>s. None) (Some (RecordInput 5 ''step'')) = Inl ValidationError"
  by code_simp

text \<open>
  C6. A bare integer \<open>n\<close> that is not negative, given for \<^verbatim>\<open>duration\<close>, becomes the time value
  of unit Iteration and magnitude \<open>n\<close>; an omitted \<^verbatim>\<open>duration\<close> is 1 Iteration.
\<close>

theorem duration_bare_integer:
  "(0 \<le> n \<longrightarrow> duration_field split (Some (IntInput n)) = Inr (Iteration n))
   \<and> unit (Iteration n) = ITERATION \<and> number (Iteration n) = n
   \<and> duration_field split None = Inr (Iteration 1)"
  by (simp add: duration_field_def validate_time_field_def parse_field_def
      parse_number_unit_field_def check_annotation_def duration_annotation_def)

theorem duration_bare_integer_witness:
  "duration_field (\<lambda>s. None) (Some (IntInput 500)) = Inr (Iteration 500)
   \<and> duration_field (\<lambda>s. None) None = Inr (Iteration 1)"
  using duration_bare_integer [of 500 "\<lambda>s. None"] by simp

text \<open>
  C10. \<^verbatim>\<open>DEFAULT\<close> carries the value of \<^verbatim>\<open>CONSTANT_LR\<close> and is an alias of it: the
  enumeration has eleven members, none of them named \<^verbatim>\<open>DEFAULT\<close>. A scheduler configuration
  built from the defaults has the type \<^verbatim>\<open>CONSTANT_LR\<close>, an update interval of 1 Iteration and a
  warmup of 0 Iteration.
\<close>

theorem default_scheduler_is_constant_lr:
  "map_of LRSchedulerType_body ''DEFAULT'' = Some ''ConstantLR''
   \<and> map_of LRSchedulerType_body ''CONSTANT_LR'' = Some ''ConstantLR''
   \<and> LRSchedulerType ''DEFAULT'' = LRSchedulerType ''CONSTANT_LR''
   \<and> LRSchedulerType ''DEFAULT'' = \<lparr>name = ''CONSTANT_LR'', val = ''ConstantLR''\<rparr>
   \<and> length (enum_members LRSchedulerType_body) = 11
   \<and> ''DEFAULT'' \<notin> name ` set (enum_members LRSchedulerType_body)
   \<and> type LRSchedulerConfig_default = LRSchedulerType ''CONSTANT_LR''
   \<and> update_interval LRSchedulerConfig_default = Iteration 1
   \<and> warmup LRSchedulerConfig_default = Iteration 0"
  by (simp add: LRSchedulerConfig_default_def LRSchedulerType_def enum_lookup_def
      enum_members_def LRSchedulerType_body_def)

section \<open>Properties of the configuration models\<close>

lemma extra_forbidden_collected:
  assumes "extra model = forbid" and "(k, v) \<in> set kwargs" and "k \<notin> set (declared model)"
  shows "extra_forbidden k \<in> set (field_errors model valid kwargs)"
proof -
  have "(k, v) \<in> set (filter (\<lambda>(k, v). k \<notin> set (declared model)) kwargs)"
    using assms(2,3) by simp
  then have "extra_forbidden k
      \<in> set (map (\<lambda>(k, v). extra_forbidden k)
               (filter (\<lambda>(k, v). k \<notin> set (declared model)) kwargs))"
    by force
  then show ?thesis
    using assms(1) by (simp add: field_errors_def)
qed

lemma configuration_models_forbid:
  assumes "model \<in> set [TrainingConfig_model, LRSchedulerConfig_model, OptimizerConfig_model,
             DataloaderConfig_model, ModelConfig_model, BaseConfig_model]"
  shows "extra model = forbid"
  using assms
  by (auto simp: TrainingConfig_model_def LRSchedulerConfig_model_def OptimizerConfig_model_def
      DataloaderConfig_model_def ModelConfig_model_def BaseConfig_model_def)

text \<open>
  C8. Each of the six configuration models refuses unknown keys: when the keyword arguments
  hold a key the model does not declare, the construction fails with a validation error that
  reports the key as forbidden, whatever the other keys and values are.
\<close>

theorem unknown_key_rejected:
  assumes "model \<in> set [TrainingConfig_model, LRSchedulerConfig_model, OptimizerConfig_model,
             DataloaderConfig_model, ModelConfig_model, BaseConfig_model]"
    and "(k, v) \<in> set kwargs"
    and "k \<notin> set (declared model)"
  shows "\<exists>errors. construct model valid kwargs = Inl errors \<and> extra_forbidden k \<in> set errors"
proof -
  have "extra_forbidden k \<in> set (field_errors model valid kwargs)"
    using configuration_models_forbid [OF assms(1)] assms(2,3)
    by (rule extra_forbidden_collected)
  moreover from this have "field_errors model valid kwargs \<noteq> []"
    by auto
  ultimately show ?thesis
    by (simp add: construct_def)
qed

theorem unknown_key_rejected_witness:
  "(\<exists>errors. construct TrainingConfig_model (\<lambda>k v. True)
        [(''seed'', 7::int), (''batch_sise'', 4)] = Inl errors
      \<and> extra_forbidden ''batch_sise'' \<in> set errors)
   \<and> construct TrainingConfig_model (\<lambda>k v. True) [(''seed'', 7::int), (''batch_sise'', 4)]
       = Inl [extra_forbidden ''batch_sise'']"
proof -
  have "''batch_sise'' \<notin> set (declared TrainingConfig_model)"
    by (simp add: TrainingConfig_model_def)
  then have "\<exists>errors. construct TrainingConfig_model (\<lambda>k v. True)
        [(''seed'', 7::int), (''batch_sise'', 4)] = Inl errors
      \<and> extra_forbidden ''batch_sise'' \<in> set errors"
    by (intro unknown_key_rejected [where v = 4]) simp_all
  moreover have "construct TrainingConfig_model (\<lambda>k v. True)
      [(''seed'', 7::int), (''batch_sise'', 4)] = Inl [extra_forbidden ''batch_sise'']"
    by (simp add: construct_def field_errors_def TrainingConfig_model_def)
  ultimately show ?thesis
    by (rule conjI)
qed




section \<open>Properties of the resolver, the clock and the warmup trigger\<close>

lemma ceil_div_ceiling:
  assumes "0 < b"
  shows "ceil_div a b = \<lceil>real_of_int a / real_of_int b\<rceil>"
proof -
  define q where "q = (a + b - 1) div b"
  define r where "r = (a + b - 1) mod b"
  have split: "a + b - 1 = b * q + r"
    by (simp add: q_def r_def)
  have r: "0 \<le> r" "r < b"
    using assms by (simp_all add: r_def)
  have up: "a \<le> b * q"
    using split r by linarith
  have "b * (q - 1) = b * q - b"
    by (simp add: algebra_simps)
  then have low: "b * (q - 1) < a"
    using split r by linarith
  have "real_of_int a / real_of_int b \<le> real_of_int q"
  proof -
    have "real_of_int a \<le> real_of_int (b * q)"
      using up by (simp only: of_int_le_iff)
    then show ?thesis
      using assms by (simp add: pos_divide_le_eq mult.commute)
  qed
  moreover have "real_of_int q - 1 < real_of_int a / real_of_int b"
  proof -
    have "real_of_int (b * (q - 1)) < real_of_int a"
      using low by (simp only: of_int_less_iff)
    then show ?thesis
      using assms by (simp add: pos_less_divide_eq mult.commute)
  qed
  ultimately have "\<lceil>real_of_int a / real_of_int b\<rceil> = q"
    by (intro ceiling_unique) simp_all
  then show ?thesis
    by (simp add: ceil_div_def q_def)
qed

text \<open>
  C2. With a known dataset length \<open>l\<close> and a positive batch size \<open>b\<close>, an epoch value of
  magnitude \<open>m\<close> resolves to the ceiling of \<open>m * l / b\<close>, taken on the reals. With an unknown
  dataset length the resolution of an epoch value fails with \<open>UnknownDatasetLength\<close>.
\<close>

theorem resolve_epoch:
  "(dataset_length ctx = None \<longrightarrow> resolve (Epoch m) ctx = Inl UnknownDatasetLength)
   \<and> (\<forall>l. 0 < batch_size ctx \<and> dataset_length ctx = Some l \<longrightarrow>
          resolve (Epoch m) ctx
            = Inr \<lceil>real_of_int (m * l) / real_of_int (batch_size ctx)\<rceil>)"
  by (simp add: resolve_def ceil_div_ceiling)

theorem resolve_epoch_witness:
  "resolve (Epoch 1) \<lparr>batch_size = 4, dataset_length = Some 100\<rparr> = Inr 25
   \<and> resolve (Epoch 3) \<lparr>batch_size = 4, dataset_length = Some 10\<rparr> = Inr \<lceil>(30::real) / 4\<rceil>
   \<and> resolve (Epoch 1) \<lparr>batch_size = 4, dataset_length = None\<rparr> = Inl UnknownDatasetLength"
  using resolve_epoch [of "\<lparr>batch_size = 4, dataset_length = Some 100\<rparr>" 1]
    resolve_epoch [of "\<lparr>batch_size = 4, dataset_length = Some 10\<rparr>" 3]
    resolve_epoch [of "\<lparr>batch_size = 4, dataset_length = None\<rparr>" 1]
  by simp

lemma advance_keeps_context:
  "clock_context (advance p s c) = clock_context c"
  by (simp add: advance_def clock_context_def Let_def)

lemma advance_all_keeps_context:
  "clock_context (advance_all calls c) = clock_context c"
  by (induction calls arbitrary: c) (auto simp: advance_keeps_context)

lemma advance_all_iterations:
  "iterations_elapsed (state (advance_all calls c))
     = iterations_elapsed (state c) + int (length calls)"
  by (induction calls arbitrary: c) (auto simp: advance_def Let_def)

lemma advance_all_steps:
  "steps_elapsed (state (advance_all calls c))
     = steps_elapsed (state c) + int (length (filter snd calls))"
  by (induction calls arbitrary: c) (auto simp: advance_def Let_def)

lemma advance_all_monotone:
  assumes "elapsed_since c reference w"
  shows "elapsed_since (advance_all calls c) reference w"
proof -
  have "iterations_elapsed (state c) \<le> iterations_elapsed (state (advance_all calls c))"
    by (simp add: advance_all_iterations)
  moreover have "steps_elapsed (state c) \<le> steps_elapsed (state (advance_all calls c))"
    by (simp add: advance_all_steps)
  ultimately show ?thesis
    using assms
    by (cases w) (auto simp: elapsed_since_def advance_all_keeps_context split: sum.splits)
qed

text \<open>
  C7. While the warmup value has not elapsed since the start of the run, the warmup trigger
  reports that the run is still warming up. Once the value has elapsed the trigger reports the
  warmup as complete, and it does so after any further calls of \<^verbatim>\<open>advance\<close>, whether or not
  the trigger was acknowledged in between.
\<close>

theorem warmup_never_rearms:
  "(\<not> elapsed_since c run_start (interval t) \<longrightarrow> warmup_should_fire c t)
   \<and> (elapsed_since c run_start (interval t) \<longrightarrow>
        \<not> warmup_should_fire c t
        \<and> \<not> warmup_should_fire (advance_all calls c) t
        \<and> \<not> warmup_should_fire (advance_all calls c) (acknowledge c' t))"
  by (simp add: warmup_should_fire_def acknowledge_def advance_all_monotone)

theorem warmup_never_rearms_witness:
  "warmup_should_fire (advance_all (replicate 2 (True, True)) (new_clock 4 100))
      \<lparr>interval = Iteration 3, last_fired_at = None\<rparr>
   \<and> \<not> warmup_should_fire (advance_all (replicate 3 (True, True)) (new_clock 4 100))
      \<lparr>interval = Iteration 3, last_fired_at = None\<rparr>
   \<and> \<not> warmup_should_fire
        (advance_all (replicate 1000 (True, True))
           (advance_all (replicate 3 (True, True)) (new_clock 4 100)))
        \<lparr>interval = Iteration 3, last_fired_at = None\<rparr>"
proof -
  have before: "\<not> elapsed_since (advance_all (replicate 2 (True, True)) (new_clock 4 100))
      run_start (Iteration 3)"
    by code_simp
  have after: "elapsed_since (advance_all (replicate 3 (True, True)) (new_clock 4 100))
      run_start (Iteration 3)"
    by code_simp
  show ?thesis
    using before after
      warmup_never_rearms [of "advance_all (replicate 2 (True, True)) (new_clock 4 100)"
        "\<lparr>interval = Iteration 3, last_fired_at = None\<rparr>" "[]"]
      warmup_never_rearms [of "advance_all (replicate 3 (True, True)) (new_clock 4 100)"
        "\<lparr>interval = Iteration 3, last_fired_at = None\<rparr>" "replicate 1000 (True, True)"]
    by simp
qed

end
